theory Spec2Isabelle
  imports Complex_Main
begin

section \<open>Multi-audio importer: a shallow embedding of \<open>multi_audio_importer.py\<close>\<close>

text \<open>
  The add-on scans a media file for audio streams with \<open>ffprobe\<close>, extracts every stream but
  the first with \<open>ffmpeg\<close>, places the extracted sounds on free channels of the sequencer,
  groups them with the selected strip into a meta strip and moves that meta strip back to
  where the selected strip was.

  Python floats are modelled as \<open>real\<close>, Python ints as \<open>int\<close>, strings as \<open>string\<close>.
  Everything the operator learns from outside (the file system, the two external tools, the
  host's sequencer operators) is a field of the record \<open>world\<close>; the functions below are
  pure functions of that record and of the sequencer state.
\<close>

subsection \<open>Python helpers\<close>

definition digit_char :: "nat \<Rightarrow> char" where
  "digit_char d = ''0123456789'' ! d"

fun str_nat :: "nat \<Rightarrow> string" where
  "str_nat n = (if n < 10 then [digit_char n] else str_nat (n div 10) @ [digit_char (n mod 10)])"

declare str_nat.simps [simp del]

text \<open>\<open>str(i)\<close> for an integer.\<close>

definition str_int :: "int \<Rightarrow> string" where
  "str_int i = (if i < 0 then CHR ''-'' # str_nat (nat (- i)) else str_nat (nat i))"

text \<open>The ASCII characters \<open>str.strip()\<close> removes.\<close>

definition py_isspace :: "char \<Rightarrow> bool" where
  "py_isspace c = (c \<in> set [CHR '' '', CHR 0x09, CHR 0x0A, CHR 0x0B, CHR 0x0C, CHR 0x0D,
                              CHR 0x1C, CHR 0x1D, CHR 0x1E, CHR 0x1F])"

definition py_strip :: "string \<Rightarrow> string" where
  "py_strip s = rev (dropWhile py_isspace (rev (dropWhile py_isspace s)))"

text \<open>\<open>int(x)\<close> for a float: truncation towards zero.\<close>

definition py_int :: "real \<Rightarrow> int" where
  "py_int x = (if 0 \<le> x then \<lfloor>x\<rfloor> else \<lceil>x\<rceil>)"

text \<open>\<open>max(xs)\<close> for a non-empty list (the caller checks that the list is not empty).\<close>

fun py_max :: "int list \<Rightarrow> int" where
  "py_max [] = 0"
| "py_max (x # xs) = fold max xs x"

text \<open>\<open>s.split(c)\<close>.\<close>

fun split_on :: "char \<Rightarrow> string \<Rightarrow> string list" where
  "split_on c [] = [[]]"
| "split_on c (x # xs) =
     (if x = c then [] # split_on c xs
      else (case split_on c xs of [] \<Rightarrow> [[x]] | y # ys \<Rightarrow> (x # y) # ys))"

text \<open>\<open>os.path.dirname\<close> and \<open>os.path.join\<close> on POSIX paths.\<close>

definition dirname :: "string \<Rightarrow> string" where
  "dirname p =
     (let hd_part = rev (dropWhile (\<lambda>c. c \<noteq> CHR ''/'') (rev p));
          stripped = rev (dropWhile (\<lambda>c. c = CHR ''/'') (rev hd_part))
      in if stripped = [] then hd_part else stripped)"

definition path_join :: "string \<Rightarrow> string \<Rightarrow> string" where
  "path_join a b =
     (if b \<noteq> [] \<and> hd b = CHR ''/'' then b
      else if a = [] \<or> last a = CHR ''/'' then a @ b
      else a @ ''/'' @ b)"

text \<open>Exceptions that reach one of the operator's handlers.\<close>

datatype exn = TimeoutExpiredExn | ZeroDivisionError | ValueError | Exception string

subsection \<open>Stream inventory: \<open>get_audio_tracks\<close>\<close>

text \<open>
  What \<open>subprocess.run(..., check=False, timeout=t)\<close> does: it completes with a return code
  and the captured output, raises \<open>TimeoutExpired\<close> once the bound \<open>t\<close> has passed, or
  raises something else (the tool is not installed, for instance), carried as \<open>str(e)\<close>.
\<close>

datatype subprocess_result =
    Completed int string string
  | TimeoutExpired
  | OtherException string

text \<open>One entry of ffprobe's \<open>streams\<close> array, with the fields the command line asks for.\<close>

record stream_info =
  index :: int
  codec_name :: "string option"
  channels :: "int option"
  sample_rate :: "string option"
  duration :: "string option"
  title :: "string option"

text \<open>
  What \<open>json.loads\<close> does with the probe's output: it raises \<open>JSONDecodeError\<close>, returns an
  object (with or without a \<open>streams\<close> key), or returns a value that is not an object, on
  which \<open>data.get\<close> raises \<open>AttributeError\<close> (carried as its text).
\<close>

datatype json_loads_result =
    JSONDecodeError string
  | JsonObject "stream_info list option"
  | JsonOther string

record scan_error =
  error :: string
  detail :: string

definition probe_timeout :: nat where
  "probe_timeout = 30"

definition get_audio_tracks ::
  "(string \<Rightarrow> json_loads_result) \<Rightarrow> subprocess_result \<Rightarrow> scan_error + stream_info list" where
  "get_audio_tracks loads result =
     (case result of
        Completed rc out err \<Rightarrow>
          if rc \<noteq> 0 then
            Inl \<lparr>error = ''ffprobe_failed'',
                 detail = ''ffprobe failed (code '' @ str_int rc @ ''): '' @ py_strip err\<rparr>
          else if py_strip out = [] then
            Inl \<lparr>error = ''ffprobe_empty_output'',
                 detail = ''ffprobe returned no output. File may not contain audio tracks.''\<rparr>
          else (case loads out of
                  JSONDecodeError e \<Rightarrow>
                    Inl \<lparr>error = ''json_decode_error'',
                         detail = ''Error parsing ffprobe output: '' @ e\<rparr>
                | JsonObject streams \<Rightarrow>
                    Inr (case streams of None \<Rightarrow> [] | Some xs \<Rightarrow> xs)
                | JsonOther e \<Rightarrow>
                    Inl \<lparr>error = ''ffprobe_unexpected_error'',
                         detail = ''Unexpected error running ffprobe: '' @ e\<rparr>)
      | TimeoutExpired \<Rightarrow>
          Inl \<lparr>error = ''ffprobe_timeout'',
               detail = ''ffprobe timed out after '' @ str_nat probe_timeout @ '' seconds''\<rparr>
      | OtherException e \<Rightarrow>
          Inl \<lparr>error = ''ffprobe_unexpected_error'',
               detail = ''Unexpected error running ffprobe: '' @ e\<rparr>)"

subsection \<open>Running the transcode tool: \<open>run_ffmpeg_with_progress\<close>\<close>

text \<open>
  The command line the operator builds. The fixed arguments (\<open>-y\<close>, \<open>-vn\<close>,
  \<open>-acodec pcm_s16le\<close>, \<open>-ar 48000\<close>) are the same for every job and are left out.
\<close>

record ffmpeg_command =
  cmd_ss :: real
  cmd_input :: string
  cmd_map :: string
  cmd_output :: string

text \<open>
  One turn of the monitoring loop, taken while \<open>process.poll()\<close> is still \<open>None\<close>:
  the clock reading \<open>time.time() - start_time\<close> at the timeout check, and what
  \<open>process.stderr.readline()\<close> gives: an exception, or a line, with the hours, minutes and
  seconds of its \<open>time=HH:MM:SS.ss\<close> field when the regular expression matches.
\<close>

datatype readline_result = ReadRaises | ReadLine "(nat \<times> nat \<times> real) option"

record tick =
  elapsed :: real
  readline :: readline_result

text \<open>
  A started process: the turns of the loop before \<open>poll()\<close> reports the exit, whether
  \<open>terminate()\<close> or \<open>wait(timeout=5)\<close> raises (with the exception's text), the return code,
  and what \<open>communicate()\<close> gives: an exception's text, or the rest of stdout and stderr.
\<close>

record process =
  ticks :: "tick list"
  terminate_raises :: "string option"
  returncode :: int
  communicate :: "string + (string \<times> string)"

datatype popen_result = PopenRaises string | Started process

text \<open>The progress value passed to \<open>wm.progress_update\<close> in one turn, if any.\<close>

definition progress_step :: "real option \<Rightarrow> real \<Rightarrow> readline_result \<Rightarrow> real option" where
  "progress_step duration_seconds last_progress r =
     (case r of
        ReadRaises \<Rightarrow> None
      | ReadLine None \<Rightarrow> None
      | ReadLine (Some (hours, minutes, seconds)) \<Rightarrow>
          (case duration_seconds of
             None \<Rightarrow> None
           | Some d \<Rightarrow>
               if d = 0 then None
               else let current_time = real hours * 3600 + real minutes * 60 + seconds;
                        progress = min (current_time / d) 1
                    in if progress - last_progress > 0.01 then Some progress else None))"

text \<open>
  The \<open>while process.poll() is None\<close> loop and what follows it. The result is the list of
  progress updates, and either the text of an exception that left the loop (\<open>Inl\<close>) or the
  pair the function returns.
\<close>

fun monitor ::
  "real \<Rightarrow> real option \<Rightarrow> process \<Rightarrow> real \<Rightarrow> tick list
     \<Rightarrow> real list \<times> (string + (string option \<times> string option))" where
  "monitor timeout duration_seconds p last_progress [] =
     ([], case communicate p of
            Inl e \<Rightarrow> Inl e
          | Inr (out, err) \<Rightarrow>
              if returncode p = 0 then Inr (Some out, None) else Inr (None, Some err))"
| "monitor timeout duration_seconds p last_progress (t # ts) =
     (if elapsed t > timeout then
        ([], case terminate_raises p of
               Some e \<Rightarrow> Inl e
             | None \<Rightarrow> Inr (None, Some ''Process timed out''))
      else (case progress_step duration_seconds last_progress (readline t) of
              None \<Rightarrow> monitor timeout duration_seconds p last_progress ts
            | Some progress \<Rightarrow>
                (case monitor timeout duration_seconds p progress ts of
                   (updates, r) \<Rightarrow> (progress # updates, r))))"

definition run_ffmpeg_with_progress ::
  "(ffmpeg_command \<Rightarrow> popen_result) \<Rightarrow> ffmpeg_command \<Rightarrow> real \<Rightarrow> real option
     \<Rightarrow> (string option \<times> string option) \<times> real list" where
  "run_ffmpeg_with_progress popen command timeout duration_seconds =
     (case popen command of
        PopenRaises e \<Rightarrow> ((None, Some e), [])
      | Started p \<Rightarrow>
          (case monitor timeout duration_seconds p 0 (ticks p) of
             (updates, Inl e) \<Rightarrow> ((None, Some e), updates)
           | (updates, Inr r) \<Rightarrow> (r, updates)))"

subsection \<open>The sequencer\<close>

text \<open>
  Modelled from the spec: the host's strips and its sequencer operators are not part of the
  repository. A strip is placed on a channel at \<open>frame_start\<close>; its trim window is given by
  the frame offsets from the start and the end of its content (\<open>frame_duration\<close> frames),
  "plus a resulting final duration" (glossary, trim window). The setters store the value
  they are given. A meta strip records the clips it groups. The field \<open>filepath\<close> is the
  absolute path of the strip's file (\<open>strip.filepath\<close> of a movie, \<open>strip.sound.filepath\<close>
  of a sound, after \<open>bpy.path.abspath\<close>).
\<close>

datatype strip_type = MOVIE | SOUND | META | OTHER

record clip =
  name :: string
  stype :: strip_type
  filepath :: string
  select :: bool
  channel :: int
  frame_start :: int
  frame_offset_start :: int
  frame_offset_end :: int
  frame_duration :: int

record strip = clip +
  children :: "clip list"

definition frame_final_start :: "'a clip_scheme \<Rightarrow> int" where
  "frame_final_start s = frame_start s + frame_offset_start s"

definition frame_final_end :: "'a clip_scheme \<Rightarrow> int" where
  "frame_final_end s = frame_start s + frame_duration s - frame_offset_end s"

definition frame_final_duration :: "'a clip_scheme \<Rightarrow> int" where
  "frame_final_duration s = frame_final_end s - frame_final_start s"

text \<open>Two strips collide when they share a channel and their final frame ranges meet.\<close>

definition overlaps :: "'a clip_scheme \<Rightarrow> 'b clip_scheme \<Rightarrow> bool" where
  "overlaps a b \<longleftrightarrow>
     channel a = channel b \<and> frame_final_start a < frame_final_end b
       \<and> frame_final_start b < frame_final_end a"

text \<open>
  \<open>strips_all\<close> is the list the operator iterates over; strips the operator holds on to
  (the selected strip, the sound strips it creates, the active strip) are positions in it.
\<close>

record seq_editor =
  strips_all :: "strip list"
  active_strip :: "nat option"

text \<open>
  Modelled from the spec: \<open>createClipAt(path, channel, frameStart) -> ClipHandle | Failure\<close>.
  The host decides how many frames the sound has; the new strip is appended to the timeline.
\<close>

datatype new_sound_result = NewSoundRaises string | NewSoundNone | NewSoundOk int

definition sound_strip :: "string \<Rightarrow> string \<Rightarrow> int \<Rightarrow> int \<Rightarrow> int \<Rightarrow> strip" where
  "sound_strip nm path ch start frames =
     \<lparr>name = nm, stype = SOUND, filepath = path, select = True, channel = ch,
      frame_start = start, frame_offset_start = 0, frame_offset_end = 0,
      frame_duration = frames, children = []\<rparr>"

text \<open>\<open>bpy.ops.sequencer.select_all(action='DESELECT')\<close>.\<close>

definition deselect_all :: "seq_editor \<Rightarrow> seq_editor" where
  "deselect_all ed = ed\<lparr>strips_all := map (\<lambda>s. s\<lparr>select := False\<rparr>) (strips_all ed)\<rparr>"

text \<open>\<open>strip.select = True\<close> for the strips at the given positions.\<close>

definition select_strips :: "nat list \<Rightarrow> seq_editor \<Rightarrow> seq_editor" where
  "select_strips positions ed =
     ed\<lparr>strips_all := fold (\<lambda>i xs. xs[i := (xs ! i)\<lparr>select := True\<rparr>]) positions
                         (strips_all ed)\<rparr>"

text \<open>
  Modelled from the spec: \<open>groupSelected() -> CompositeHandle | Failure\<close>. When the host
  groups, the selected strips leave the timeline and become the children of one new meta
  strip, which is the active strip afterwards; the host decides the meta strip's own
  placement and length (the clip \<open>m\<close>). The operator can also raise, or do nothing.
\<close>

datatype meta_make_result = MetaRaises string | MetaNoop | MetaMade clip

definition group_selected :: "clip \<Rightarrow> seq_editor \<Rightarrow> seq_editor" where
  "group_selected m ed =
     (let chosen = filter select (strips_all ed);
          others = filter (\<lambda>s. \<not> select s) (strips_all ed);
          meta = clip.extend (m\<lparr>stype := META\<rparr>)
                   (strip.fields (map clip.truncate chosen))
      in \<lparr>strips_all = others @ [meta], active_strip = Some (length others)\<rparr>)"

subsection \<open>The operator's view of the outside\<close>

record world =
  isfile :: "string \<Rightarrow> bool"
  getsize :: "string \<Rightarrow> nat"
  path_exists :: "string \<Rightarrow> bool"
  ffprobe_streams :: "string \<Rightarrow> subprocess_result"
  json_loads :: "string \<Rightarrow> json_loads_result"
  ffprobe_duration :: "string \<Rightarrow> subprocess_result"
  ffprobe_fps :: "string \<Rightarrow> subprocess_result"
  py_float :: "string \<Rightarrow> real option"
  render_fps :: int
  render_fps_base :: real
  popen :: "ffmpeg_command \<Rightarrow> popen_result"
  new_sound :: "string \<Rightarrow> new_sound_result"
  select_all_raises :: "string option"
  meta_make :: meta_make_result

subsection \<open>Reports\<close>

text \<open>
  \<open>self.report\<close> calls, by level. Every warning and error is tracked, and the informational
  reports that mark a decision; informational lines that only echo values are left out.
\<close>

datatype level = INFO | WARNING | ERROR

datatype message =
    NoSequenceEditor
  | MultipleStripsSelected
  | NoStripSelected
  | SourceFileNotFound string
  | ScanningAudioTracks
  | FailedToScan string
  | NoAudioTracksFound
  | OnlyOneTrack nat
  | FoundTracks nat
  | TrackVeryShort string
  | FailedToGetDuration
  | FailedToAnalyze exn
  | UsingProjectFps
  | FailedToExtract string string
  | CouldNotVerify
  | ErrorVerifying exn
  | VerySmallFile string
  | MayBeSilent
  | ExtractedFileNotFound string
  | FailedToCreateStrip string
  | FailedToImport string exn
  | CreatingMetastrip nat
  | Restoring
  | AdjustedDuration int int
  | SuccessfullyCreated string
  | MetastripMayHaveFailed
  | NoAdditionalExtracted
  | OnlyOneTrackNoProcessing
  | FailedToExtractAdditional string

type_synonym report = "level \<times> message"

subsection \<open>The operator: \<open>AUDIO_OT_ExtractAdditionalTracks.execute\<close>\<close>

text \<open>
  One extraction job: the command, and the duration and the timeout handed to
  \<open>run_ffmpeg_with_progress\<close> with it.
\<close>

record extraction_job =
  command :: ffmpeg_command
  duration_seconds :: real
  timeout_seconds :: int

definition start_seconds :: "extraction_job \<Rightarrow> real" where
  "start_seconds j = cmd_ss (command j)"

datatype status = FINISHED | CANCELLED

text \<open>
  What a run leaves behind: the set the operator returns, the sequencer, the reports in
  order, and the jobs handed to the transcode tool in order.
\<close>

record outcome =
  status :: status
  editor :: "seq_editor option"
  reports :: "report list"
  jobs_run :: "extraction_job list"

text \<open>The loop that looks for the one selected movie or sound strip.\<close>

definition is_candidate :: "strip \<Rightarrow> bool" where
  "is_candidate s \<longleftrightarrow>
     select s \<and> (stype s = MOVIE \<or> stype s = SOUND)
       \<and> (stype s = MOVIE \<or> (stype s = SOUND \<and> filepath s \<noteq> []))"

fun find_selected_from :: "nat \<Rightarrow> strip list \<Rightarrow> nat option \<Rightarrow> message + nat option" where
  "find_selected_from i [] selected_strip = Inr selected_strip"
| "find_selected_from i (s # rest) selected_strip =
     (if is_candidate s then
        (case selected_strip of
           None \<Rightarrow> find_selected_from (Suc i) rest (Some i)
         | Some _ \<Rightarrow> Inl MultipleStripsSelected)
      else find_selected_from (Suc i) rest selected_strip)"

definition find_selected :: "strip list \<Rightarrow> message + nat" where
  "find_selected strips =
     (case find_selected_from 0 strips None of
        Inl m \<Rightarrow> Inl m
      | Inr None \<Rightarrow> Inl NoStripSelected
      | Inr (Some i) \<Rightarrow> Inr i)"

text \<open>The warning about a stream whose declared duration is under a second.\<close>

definition track_warnings :: "world \<Rightarrow> stream_info \<Rightarrow> report list" where
  "track_warnings w s =
     (case duration s of
        None \<Rightarrow> []
      | Some d \<Rightarrow>
          if d \<noteq> [] \<and> d \<noteq> ''unknown'' then
            (case py_float w d of
               None \<Rightarrow> []
             | Some x \<Rightarrow> if x < 1 then [(WARNING, TrackVeryShort (str_int (index s)))] else [])
          else [])"

text \<open>Phase 2: the size of the file, the container's duration and the frame rate.\<close>

definition parse_fps :: "(string \<Rightarrow> real option) \<Rightarrow> string \<Rightarrow> exn + real" where
  "parse_fps to_float fps_string =
     (if CHR ''/'' \<in> set fps_string then
        (case split_on CHR ''/'' fps_string of
           [numerator, denominator] \<Rightarrow>
             (case to_float numerator of
                None \<Rightarrow> Inl ValueError
              | Some n \<Rightarrow>
                  (case to_float denominator of
                     None \<Rightarrow> Inl ValueError
                   | Some d \<Rightarrow> if d = 0 then Inl ZeroDivisionError else Inr (n / d)))
         | _ \<Rightarrow> Inl ValueError)
      else (case to_float fps_string of None \<Rightarrow> Inl ValueError | Some f \<Rightarrow> Inr f))"

definition resolve_fps :: "world \<Rightarrow> string \<Rightarrow> report list \<times> (exn + real)" where
  "resolve_fps w source_file =
     (case ffprobe_fps w source_file of
        TimeoutExpired \<Rightarrow> ([], Inl TimeoutExpiredExn)
      | OtherException e \<Rightarrow> ([], Inl (Exception e))
      | Completed rc out err \<Rightarrow>
          if rc = 0 \<and> py_strip out \<noteq> [] then ([], parse_fps (py_float w) (py_strip out))
          else if render_fps_base w = 0 then ([], Inl ZeroDivisionError)
          else ([(WARNING, UsingProjectFps)],
                Inr (real_of_int (render_fps w) / render_fps_base w)))"

record analysis =
  file_size_mb :: real
  video_duration_seconds :: real
  actual_video_fps :: real

definition analyze_source :: "world \<Rightarrow> string \<Rightarrow> report list \<times> analysis option" where
  "analyze_source w source_file =
     (case ffprobe_duration w source_file of
        TimeoutExpired \<Rightarrow> ([(ERROR, FailedToAnalyze TimeoutExpiredExn)], None)
      | OtherException e \<Rightarrow> ([(ERROR, FailedToAnalyze (Exception e))], None)
      | Completed rc out err \<Rightarrow>
          if rc \<noteq> 0 \<or> py_strip out = [] then ([(ERROR, FailedToGetDuration)], None)
          else (case py_float w (py_strip out) of
                  None \<Rightarrow> ([(ERROR, FailedToAnalyze ValueError)], None)
                | Some seconds \<Rightarrow>
                    (case resolve_fps w source_file of
                       (rs, Inl e) \<Rightarrow> (rs @ [(ERROR, FailedToAnalyze e)], None)
                     | (rs, Inr fps) \<Rightarrow>
                         (rs, Some \<lparr>file_size_mb = real (getsize w source_file) / (1024 * 1024),
                                    video_duration_seconds = seconds,
                                    actual_video_fps = fps\<rparr>))))"

text \<open>Phase 3: the placement of the selected strip, read before anything is changed.\<close>

record snapshot =
  original_strip_name :: string
  original_strip_channel :: int
  original_frame_start :: int
  original_frame_final_start :: int
  original_frame_final_end :: int
  original_frame_final_duration :: int
  original_frame_offset_start :: int
  original_frame_offset_end :: int

definition take_snapshot :: "strip \<Rightarrow> snapshot" where
  "take_snapshot s =
     \<lparr>original_strip_name = name s,
      original_strip_channel = channel s,
      original_frame_start = frame_start s,
      original_frame_final_start = frame_final_start s,
      original_frame_final_end = frame_final_end s,
      original_frame_final_duration = frame_final_duration s,
      original_frame_offset_start = frame_offset_start s,
      original_frame_offset_end = frame_offset_end s\<rparr>"

definition audio_timeout :: "real \<Rightarrow> int" where
  "audio_timeout size_mb = max 60 (min 600 (py_int (size_mb * 2)))"

definition temp_extraction_start :: int where
  "temp_extraction_start = 1000"

definition extraction_start_channel :: "strip list \<Rightarrow> int" where
  "extraction_start_channel strips =
     (let occupied_channels = map channel strips
      in if occupied_channels \<noteq> [] then py_max occupied_channels + 1 else 1)"

text \<open>Phase 4: the loop over the additional streams.\<close>

record loop_state =
  l_editor :: seq_editor
  created_audio_strips :: "nat list"
  next_channel :: int
  l_reports :: "report list"
  l_jobs :: "extraction_job list"

definition warn :: "message \<Rightarrow> loop_state \<Rightarrow> loop_state" where
  "warn m st = st\<lparr>l_reports := l_reports st @ [(WARNING, m)]\<rparr>"

definition truthy :: "string option \<Rightarrow> bool" where
  "truthy v = (case v of None \<Rightarrow> False | Some s \<Rightarrow> s \<noteq> [])"

definition verify_reports :: "world \<Rightarrow> string \<Rightarrow> report list" where
  "verify_reports w out_path =
     (case ffprobe_duration w out_path of
        TimeoutExpired \<Rightarrow> [(WARNING, ErrorVerifying TimeoutExpiredExn)]
      | OtherException e \<Rightarrow> [(WARNING, ErrorVerifying (Exception e))]
      | Completed rc out err \<Rightarrow>
          if rc = 0 \<and> py_strip out \<noteq> [] then
            (case py_float w (py_strip out) of
               None \<Rightarrow> [(WARNING, ErrorVerifying ValueError)]
             | Some _ \<Rightarrow> [])
          else [(WARNING, CouldNotVerify)])"

definition small_file_reports :: "world \<Rightarrow> string \<Rightarrow> string \<Rightarrow> report list" where
  "small_file_reports w out_path idx =
     (if real (getsize w out_path) / 1024 < 10
      then [(WARNING, VerySmallFile idx), (WARNING, MayBeSilent)] else [])"

definition import_extracted ::
  "world \<Rightarrow> string \<Rightarrow> string \<Rightarrow> string \<Rightarrow> loop_state \<Rightarrow> loop_state" where
  "import_extracted w out_path idx ttl st =
     (if \<not> path_exists w out_path then warn (ExtractedFileNotFound out_path) st
      else
        let st' = st\<lparr>l_reports := l_reports st @ verify_reports w out_path
                                     @ small_file_reports w out_path idx\<rparr>;
            audio_strip_name = ''Audio_'' @ ttl
        in (case new_sound w out_path of
              NewSoundRaises e \<Rightarrow> warn (FailedToImport idx (Exception e)) st'
            | NewSoundNone \<Rightarrow> warn (FailedToCreateStrip audio_strip_name) st'
            | NewSoundOk frames \<Rightarrow>
                st'\<lparr>l_editor := (l_editor st')\<lparr>strips_all :=
                        strips_all (l_editor st')
                          @ [sound_strip audio_strip_name out_path (next_channel st')
                               temp_extraction_start frames]\<rparr>,
                    created_audio_strips :=
                        created_audio_strips st' @ [length (strips_all (l_editor st'))],
                    next_channel := next_channel st' + 1\<rparr>))"

definition stream_index :: "stream_info \<Rightarrow> string" where
  "stream_index s = str_int (index s)"

definition stream_title :: "stream_info \<Rightarrow> string" where
  "stream_title s = (case title s of None \<Rightarrow> ''Track_'' @ stream_index s | Some t \<Rightarrow> t)"

definition temp_path :: "string \<Rightarrow> snapshot \<Rightarrow> stream_info \<Rightarrow> string" where
  "temp_path source_file snap s =
     path_join (dirname source_file)
       (''additional_audio_'' @ original_strip_name snap @ ''_track_'' @ stream_index s @ ''.wav'')"

text \<open>The job of one stream (the caller has checked that the rate is not zero).\<close>

definition extraction_job_for ::
  "string \<Rightarrow> snapshot \<Rightarrow> real \<Rightarrow> int \<Rightarrow> stream_info \<Rightarrow> extraction_job" where
  "extraction_job_for source_file snap fps timeout s =
     (let precise_duration_seconds = real_of_int (original_frame_final_duration snap) / fps;
          strip_start_offset_seconds = real_of_int (original_frame_offset_start snap) / fps
      in \<lparr>command = \<lparr>cmd_ss = strip_start_offset_seconds, cmd_input = source_file,
                       cmd_map = ''0:'' @ stream_index s,
                       cmd_output = temp_path source_file snap s\<rparr>,
          duration_seconds = precise_duration_seconds,
          timeout_seconds = timeout\<rparr>)"

definition run_job :: "world \<Rightarrow> extraction_job \<Rightarrow> string option \<times> string option" where
  "run_job w j =
     fst (run_ffmpeg_with_progress (popen w) (command j) (real_of_int (timeout_seconds j))
            (Some (duration_seconds j)))"

definition extract_one ::
  "world \<Rightarrow> string \<Rightarrow> snapshot \<Rightarrow> real \<Rightarrow> int \<Rightarrow> stream_info \<Rightarrow> loop_state \<Rightarrow> loop_state" where
  "extract_one w source_file snap fps timeout s st =
     (if fps = 0 then warn (FailedToImport (stream_index s) ZeroDivisionError) st
      else
        let job = extraction_job_for source_file snap fps timeout s;
            stderr = snd (run_job w job);
            st' = st\<lparr>l_jobs := l_jobs st @ [job]\<rparr>
        in if truthy stderr then warn (FailedToExtract (stream_index s) (the stderr)) st'
           else import_extracted w (temp_path source_file snap s) (stream_index s)
                  (stream_title s) st')"

fun extract_loop ::
  "world \<Rightarrow> string \<Rightarrow> snapshot \<Rightarrow> real \<Rightarrow> int \<Rightarrow> stream_info list \<Rightarrow> loop_state \<Rightarrow> loop_state" where
  "extract_loop w source_file snap fps timeout [] st = st"
| "extract_loop w source_file snap fps timeout (s # rest) st =
     extract_loop w source_file snap fps timeout rest
       (extract_one w source_file snap fps timeout s st)"

text \<open>Phase 6: the meta strip goes back to where the selected strip was.\<close>

definition restore_meta :: "snapshot \<Rightarrow> strip \<Rightarrow> strip" where
  "restore_meta snap meta_strip =
     (let m = meta_strip\<lparr>name := ''MultiAudio_'' @ original_strip_name snap,
                          frame_start := original_frame_start snap,
                          channel := original_strip_channel snap,
                          frame_offset_start := original_frame_offset_start snap,
                          frame_offset_end := original_frame_offset_end snap\<rparr>;
          current_duration = frame_final_duration m;
          target_duration = original_frame_final_duration snap
      in if \<bar>current_duration - target_duration\<bar> > 1 then
           m\<lparr>frame_offset_end := original_frame_offset_end snap
                                     + (current_duration - target_duration)\<rparr>
         else m)"

definition restore_reports :: "snapshot \<Rightarrow> strip \<Rightarrow> report list" where
  "restore_reports snap meta_strip =
     (let m = meta_strip\<lparr>frame_start := original_frame_start snap,
                          channel := original_strip_channel snap,
                          frame_offset_start := original_frame_offset_start snap,
                          frame_offset_end := original_frame_offset_end snap\<rparr>;
          current_duration = frame_final_duration m;
          target_duration = original_frame_final_duration snap
      in [(INFO, Restoring)]
         @ (if \<bar>current_duration - target_duration\<bar> > 1
            then [(INFO, AdjustedDuration current_duration target_duration)] else [])
         @ [(INFO, SuccessfullyCreated (''MultiAudio_'' @ original_strip_name snap))])"

text \<open>Phase 5: the selected strip moves to the temporary area, next to the new sounds.\<close>

definition move_original :: "nat \<Rightarrow> int \<Rightarrow> seq_editor \<Rightarrow> seq_editor" where
  "move_original sel start_channel ed =
     ed\<lparr>strips_all := (strips_all ed)
          [sel := (strips_all ed ! sel)\<lparr>frame_start := temp_extraction_start,
                                       channel := start_channel - 1\<rparr>]\<rparr>"

definition active_meta :: "seq_editor \<Rightarrow> nat option" where
  "active_meta ed =
     (case active_strip ed of
        None \<Rightarrow> None
      | Some i \<Rightarrow> if i < length (strips_all ed) \<and> stype (strips_all ed ! i) = META
                  then Some i else None)"

definition assemble ::
  "world \<Rightarrow> snapshot \<Rightarrow> nat \<Rightarrow> int \<Rightarrow> report list \<Rightarrow> loop_state \<Rightarrow> outcome" where
  "assemble w snap sel start_channel rs st =
     (if created_audio_strips st = [] then
        \<lparr>status = FINISHED, editor = Some (l_editor st),
         reports = rs @ l_reports st @ [(WARNING, NoAdditionalExtracted)],
         jobs_run = l_jobs st\<rparr>
      else
        let rs' = rs @ l_reports st @ [(INFO, CreatingMetastrip (length (created_audio_strips st)))];
            moved = move_original sel start_channel (l_editor st)
        in (case select_all_raises w of
              Some e \<Rightarrow>
                \<lparr>status = CANCELLED, editor = Some moved,
                 reports = rs' @ [(ERROR, FailedToExtractAdditional e)], jobs_run = l_jobs st\<rparr>
            | None \<Rightarrow>
                let chosen = select_strips (sel # created_audio_strips st) (deselect_all moved)
                in (case meta_make w of
                      MetaRaises e \<Rightarrow>
                        \<lparr>status = CANCELLED, editor = Some chosen,
                         reports = rs' @ [(ERROR, FailedToExtractAdditional e)],
                         jobs_run = l_jobs st\<rparr>
                    | made \<Rightarrow>
                        let grouped = (case made of MetaMade m \<Rightarrow> group_selected m chosen
                                                  | _ \<Rightarrow> chosen)
                        in (case active_meta grouped of
                              None \<Rightarrow>
                                \<lparr>status = FINISHED, editor = Some grouped,
                                 reports = rs' @ [(WARNING, MetastripMayHaveFailed)],
                                 jobs_run = l_jobs st\<rparr>
                            | Some i \<Rightarrow>
                                \<lparr>status = FINISHED,
                                 editor = Some (grouped\<lparr>strips_all := (strips_all grouped)
                                            [i := restore_meta snap (strips_all grouped ! i)]\<rparr>),
                                 reports = rs' @ restore_reports snap (strips_all grouped ! i),
                                 jobs_run = l_jobs st\<rparr>))))"

text \<open>The body of the operator's \<open>try\<close> block, from the scan on.\<close>

definition extract_and_assemble ::
  "world \<Rightarrow> seq_editor \<Rightarrow> nat \<Rightarrow> string \<Rightarrow> stream_info list \<Rightarrow> analysis \<Rightarrow> report list
     \<Rightarrow> outcome" where
  "extract_and_assemble w seq_editor sel source_file found_audio_streams a rs =
     (let snap = take_snapshot (strips_all seq_editor ! sel)
      in if length found_audio_streams > 1 then
           let additional_tracks = tl found_audio_streams;
               timeout = audio_timeout (file_size_mb a);
               start_channel = extraction_start_channel (strips_all seq_editor);
               st = extract_loop w source_file snap (actual_video_fps a) timeout additional_tracks
                      \<lparr>l_editor = seq_editor, created_audio_strips = [],
                       next_channel = start_channel, l_reports = [], l_jobs = []\<rparr>
           in assemble w snap sel start_channel rs st
         else \<lparr>status = FINISHED, editor = Some seq_editor,
               reports = rs @ [(INFO, OnlyOneTrackNoProcessing)], jobs_run = []\<rparr>)"

definition run_pipeline :: "world \<Rightarrow> seq_editor \<Rightarrow> nat \<Rightarrow> string \<Rightarrow> outcome" where
  "run_pipeline w seq_editor sel source_file =
     (case get_audio_tracks (json_loads w) (ffprobe_streams w source_file) of
        Inl e \<Rightarrow>
          \<lparr>status = CANCELLED, editor = Some seq_editor,
           reports = [(INFO, ScanningAudioTracks), (ERROR, FailedToScan (detail e))],
           jobs_run = []\<rparr>
      | Inr found_audio_streams \<Rightarrow>
          if found_audio_streams = [] then
            \<lparr>status = FINISHED, editor = Some seq_editor,
             reports = [(INFO, ScanningAudioTracks), (INFO, NoAudioTracksFound)], jobs_run = []\<rparr>
          else if length found_audio_streams \<le> 1 then
            \<lparr>status = FINISHED, editor = Some seq_editor,
             reports = [(INFO, ScanningAudioTracks),
                        (INFO, OnlyOneTrack (length found_audio_streams))],
             jobs_run = []\<rparr>
          else
            let rs = [(INFO, ScanningAudioTracks), (INFO, FoundTracks (length found_audio_streams))]
                       @ concat (map (track_warnings w) found_audio_streams)
            in (case analyze_source w source_file of
                  (rs2, None) \<Rightarrow>
                    \<lparr>status = CANCELLED, editor = Some seq_editor, reports = rs @ rs2,
                     jobs_run = []\<rparr>
                | (rs2, Some a) \<Rightarrow>
                    extract_and_assemble w seq_editor sel source_file found_audio_streams a
                      (rs @ rs2)))"

definition execute :: "world \<Rightarrow> seq_editor option \<Rightarrow> outcome" where
  "execute w sequence_editor =
     (case sequence_editor of
        None \<Rightarrow>
          \<lparr>status = CANCELLED, editor = None, reports = [(ERROR, NoSequenceEditor)],
           jobs_run = []\<rparr>
      | Some seq_editor \<Rightarrow>
          (case find_selected (strips_all seq_editor) of
             Inl m \<Rightarrow>
               \<lparr>status = CANCELLED, editor = Some seq_editor, reports = [(ERROR, m)],
                jobs_run = []\<rparr>
           | Inr sel \<Rightarrow>
               let source_file = filepath (strips_all seq_editor ! sel)
               in if \<not> isfile w source_file then
                    \<lparr>status = CANCELLED, editor = Some seq_editor,
                     reports = [(ERROR, SourceFileNotFound source_file)], jobs_run = []\<rparr>
                  else run_pipeline w seq_editor sel source_file))"

subsection \<open>Notions the properties are stated with\<close>

text \<open>The five kinds of failure a scan can return.\<close>

definition scan_kinds :: "string list" where
  "scan_kinds = [''ffprobe_failed'', ''ffprobe_empty_output'', ''json_decode_error'',
                 ''ffprobe_timeout'', ''ffprobe_unexpected_error'']"

text \<open>
  The process was started, no turn of the monitoring loop saw the clock past the timeout,
  and the return code is 0.
\<close>

definition exits_in_time :: "real \<Rightarrow> popen_result \<Rightarrow> bool" where
  "exits_in_time timeout r =
     (case r of
        PopenRaises _ \<Rightarrow> False
      | Started p \<Rightarrow> list_all (\<lambda>t. elapsed t \<le> timeout) (ticks p) \<and> returncode p = 0)"

text \<open>Collecting the output of the process with \<open>communicate()\<close> raises.\<close>

definition output_raises :: "popen_result \<Rightarrow> bool" where
  "output_raises r = (case r of PopenRaises _ \<Rightarrow> False | Started p \<Rightarrow> isl (communicate p))"

text \<open>
  A job the loop gives up on before it creates a strip: the window cannot be computed
  (the rate is zero), the transcode run hands back a non-empty error text, or the output
  file is not there.
\<close>

definition job_fails ::
  "world \<Rightarrow> string \<Rightarrow> snapshot \<Rightarrow> real \<Rightarrow> int \<Rightarrow> stream_info \<Rightarrow> bool" where
  "job_fails w source_file snap fps timeout s \<longleftrightarrow>
     fps = 0
     \<or> truthy (snd (run_job w (extraction_job_for source_file snap fps timeout s)))
     \<or> \<not> path_exists w (temp_path source_file snap s)"

subsection \<open>Concrete inputs\<close>

text \<open>A timeline with two strips, on channels 1 and 4.\<close>

definition two_strips :: "strip list" where
  "two_strips = [sound_strip ''a'' ''/a.wav'' 1 0 10, sound_strip ''b'' ''/b.wav'' 4 0 10]"

text \<open>
  The scenario of the spec: a clip trimmed to the window
  \<open>{offsetStart = 48, offsetEnd = 0, finalDuration = 960}\<close>, selected, on channel 1; a source
  with three audio streams (the second titled Comm, the third Music) at 24/1 frames a second.
\<close>

definition clip_strip :: strip where
  "clip_strip =
     \<lparr>name = ''clip'', stype = MOVIE, filepath = ''/v/clip.mkv'', select = True, channel = 1,
      frame_start = 0, frame_offset_start = 48, frame_offset_end = 0, frame_duration = 1008,
      children = []\<rparr>"

definition demo_editor :: seq_editor where
  "demo_editor = \<lparr>strips_all = [clip_strip], active_strip = Some 0\<rparr>"

definition demo_streams :: "stream_info list" where
  "demo_streams =
     [\<lparr>index = 0, codec_name = Some ''aac'', channels = Some 2, sample_rate = Some ''48000'',
       duration = None, title = None\<rparr>,
      \<lparr>index = 1, codec_name = Some ''aac'', channels = Some 2, sample_rate = Some ''48000'',
       duration = None, title = Some ''Comm''\<rparr>,
      \<lparr>index = 2, codec_name = Some ''aac'', channels = Some 2, sample_rate = Some ''48000'',
       duration = None, title = Some ''Music''\<rparr>]"

definition demo_float :: "string \<Rightarrow> real option" where
  "demo_float s =
     (if s = ''24'' then Some 24 else if s = ''1'' then Some 1
      else if s = ''60.0'' then Some 60 else None)"

definition demo_analysis :: analysis where
  "demo_analysis = \<lparr>file_size_mb = 100, video_duration_seconds = 60, actual_video_fps = 24\<rparr>"

text \<open>A transcode run that exits with code 0 at once.\<close>

definition demo_process :: process where
  "demo_process = \<lparr>ticks = [], terminate_raises = None, returncode = 0,
                    communicate = Inr ([], [])\<rparr>"

text \<open>The meta strip as the host makes it: 1440 frames from frame 1000 on channel 2.\<close>

definition demo_meta :: clip where
  "demo_meta =
     \<lparr>name = ''MetaStrip'', stype = META, filepath = [], select = True, channel = 2,
      frame_start = 1000, frame_offset_start = 0, frame_offset_end = 0, frame_duration = 1440\<rparr>"

definition demo_world :: world where
  "demo_world =
     \<lparr>isfile = (\<lambda>p. p = ''/v/clip.mkv''),
      getsize = (\<lambda>p. if p = ''/v/clip.mkv'' then 104857600 else 2000000),
      path_exists = (\<lambda>p. True),
      ffprobe_streams = (\<lambda>p. Completed 0 ''{}'' []),
      json_loads = (\<lambda>s. JsonObject (Some demo_streams)),
      ffprobe_duration = (\<lambda>p. Completed 0 ''60.0'' []),
      ffprobe_fps = (\<lambda>p. Completed 0 ''24/1'' []),
      py_float = demo_float,
      render_fps = 30,
      render_fps_base = 1,
      popen = (\<lambda>c. Started demo_process),
      new_sound = (\<lambda>p. NewSoundOk 1440),
      select_all_raises = None,
      meta_make = MetaMade demo_meta\<rparr>"

text \<open>A parser that rejects everything.\<close>

definition loads_nothing :: "string \<Rightarrow> json_loads_result" where
  "loads_nothing s = JSONDecodeError ''Expecting value''"

text \<open>
  Transcode runs: one that ends well, one that is too slow, one whose output cannot be
  decoded.
\<close>

definition demo_command :: ffmpeg_command where
  "demo_command = \<lparr>cmd_ss = 2, cmd_input = ''/v/clip.mkv'', cmd_map = ''0:1'',
                    cmd_output = ''/v/out.wav''\<rparr>"

definition popen_ok :: "ffmpeg_command \<Rightarrow> popen_result" where
  "popen_ok c =
     Started \<lparr>ticks = [\<lparr>elapsed = 1, readline = ReadLine (Some (0, 0, 20))\<rparr>],
              terminate_raises = None, returncode = 0, communicate = Inr (''out'', [])\<rparr>"

definition popen_slow :: "ffmpeg_command \<Rightarrow> popen_result" where
  "popen_slow c =
     Started \<lparr>ticks = [\<lparr>elapsed = 1, readline = ReadLine (Some (0, 0, 20))\<rparr>,
                       \<lparr>elapsed = 61, readline = ReadLine None\<rparr>],
              terminate_raises = None, returncode = 0, communicate = Inr (''out'', [])\<rparr>"

definition popen_decode_error :: "ffmpeg_command \<Rightarrow> popen_result" where
  "popen_decode_error c =
     Started \<lparr>ticks = [], terminate_raises = None, returncode = 0,
              communicate = Inl ''invalid start byte''\<rparr>"

text \<open>The same source with one audio stream only.\<close>

definition solo_world :: world where
  "solo_world =
     demo_world\<lparr>json_loads := (\<lambda>s. JsonObject (Some
        [\<lparr>index = 0, codec_name = Some ''aac'', channels = Some 2,
          sample_rate = Some ''48000'', duration = None, title = Some ''A''\<rparr>]))\<rparr>"

text \<open>A transcode tool that exits with code 1 and a diagnostic for every stream.\<close>

definition failed_process :: process where
  "failed_process = \<lparr>ticks = [], terminate_raises = None, returncode = 1,
                      communicate = Inr ([], ''matches no streams'')\<rparr>"

definition failing_world :: world where
  "failing_world = demo_world\<lparr>popen := (\<lambda>c. Started failed_process)\<rparr>"

text \<open>
  A timeline that also holds a sound on channel 2, frames 900 to 1200, and a host whose
  grouping operator raises.
\<close>

definition bystander_strip :: strip where
  "bystander_strip =
     \<lparr>name = ''music'', stype = SOUND, filepath = ''/v/music.wav'', select = False, channel = 2,
      frame_start = 900, frame_offset_start = 0, frame_offset_end = 0, frame_duration = 300,
      children = []\<rparr>"

definition busy_editor :: seq_editor where
  "busy_editor = \<lparr>strips_all = [clip_strip, bystander_strip], active_strip = Some 0\<rparr>"

definition stuck_world :: world where
  "stuck_world = demo_world\<lparr>meta_make := MetaRaises ''context is incorrect''\<rparr>"

text \<open>
  A transcode run of the third stream that exits with code 1 after the monitoring loop has
  read all of its stderr, so that \<open>communicate()\<close> returns empty text; the output file of an
  earlier run is still there (\<open>path_exists\<close> is true everywhere in \<open>demo_world\<close>).
\<close>

definition silent_failure :: process where
  "silent_failure =
     \<lparr>ticks = [\<lparr>elapsed = 1, readline = ReadLine None\<rparr>], terminate_raises = None,
      returncode = 1, communicate = Inr ([], [])\<rparr>"

definition quiet_world :: world where
  "quiet_world =
     demo_world\<lparr>popen := (\<lambda>c. if cmd_map c = ''0:2'' then Started silent_failure
                                else Started demo_process)\<rparr>"

section \<open>Properties\<close>

subsection \<open>Helpers\<close>

lemma py_int_mono: "x \<le> y \<Longrightarrow> py_int x \<le> py_int y"
  unfolding py_int_def
  by (smt (verit) ceiling_mono floor_mono ceiling_le_zero zero_le_floor le_floor_iff ceiling_le_iff of_int_0)

lemma py_max_Max:
  assumes "xs \<noteq> []"
  shows "py_max xs = Max (set xs)"
proof (cases xs)
  case Nil
  with assms show ?thesis by simp
next
  case (Cons a list)
  then show ?thesis using Max.set_eq_fold [of a list] by simp
qed

subsection \<open>Workspace allocation\<close>

lemma channel_below_start:
  assumes "s \<in> set strips"
  shows "channel s < extraction_start_channel strips"
proof -
  from assms have ne: "strips \<noteq> []" by auto
  then have eq: "extraction_start_channel strips = Max (channel ` set strips) + 1"
    by (simp add: extraction_start_channel_def py_max_Max)
  have "channel s \<le> Max (channel ` set strips)" using assms by simp
  then show ?thesis using eq by simp
qed

text \<open>
  C8: for every list of strips on the timeline, the first workspace channel is one more than
  the greatest occupied channel, and 1 when there is no strip; so it lies strictly above
  every occupied channel.
\<close>

theorem extraction_start_channel_above:
  "extraction_start_channel strips
     = (if strips = [] then 1 else Max (channel ` set strips) + 1)
   \<and> (\<forall>s \<in> set strips. channel s < extraction_start_channel strips)"
  using channel_below_start [of _ strips]
  by (auto simp: extraction_start_channel_def py_max_Max)

theorem extraction_start_channel_above_witness:
  "extraction_start_channel two_strips = 5 \<and> extraction_start_channel [] = 1
   \<and> list_all (\<lambda>s. channel s < 5) two_strips"
  using extraction_start_channel_above [of two_strips] extraction_start_channel_above [of "[]"]
  by (simp add: two_strips_def sound_strip_def)

subsection \<open>The per-job timeout\<close>

text \<open>
  C9: for a file of \<open>s\<close> megabytes, \<open>s \<ge> 0\<close>, the timeout of a job is
  \<open>max(60, min(600, int(s * 2)))\<close> seconds, where \<open>int\<close> rounds down; it lies between 60 and
  600 and does not decrease when \<open>s\<close> grows.
\<close>

theorem audio_timeout_clamped:
  "0 \<le> s \<Longrightarrow>
     audio_timeout s = max 60 (min 600 \<lfloor>s * 2\<rfloor>)
     \<and> 60 \<le> audio_timeout s \<and> audio_timeout s \<le> 600
     \<and> (\<forall>t. s \<le> t \<longrightarrow> audio_timeout s \<le> audio_timeout t)"
proof (intro conjI allI impI)
  assume "0 \<le> s"
  then show "audio_timeout s = max 60 (min 600 \<lfloor>s * 2\<rfloor>)"
    by (simp add: audio_timeout_def py_int_def)
next
  show "60 \<le> audio_timeout s" by (simp add: audio_timeout_def)
next
  show "audio_timeout s \<le> 600" by (simp add: audio_timeout_def)
next
  fix t assume "s \<le> t"
  then have "py_int (s * 2) \<le> py_int (t * 2)" by (intro py_int_mono) simp
  then show "audio_timeout s \<le> audio_timeout t"
    unfolding audio_timeout_def by linarith
qed

theorem audio_timeout_clamped_witness:
  "(0::real) \<le> 100 \<and> audio_timeout 100 = 200 \<and> audio_timeout 100 \<le> audio_timeout 400
   \<and> audio_timeout 400 = 600"
  using audio_timeout_clamped [of 100] by (simp add: audio_timeout_def py_int_def)

subsection \<open>The stream scan\<close>

lemma get_audio_tracks_cases:
  "get_audio_tracks loads result =
     (case result of
        Completed rc out err \<Rightarrow>
          if rc \<noteq> 0 then
            Inl \<lparr>error = ''ffprobe_failed'',
                 detail = ''ffprobe failed (code '' @ str_int rc @ ''): '' @ py_strip err\<rparr>
          else if py_strip out = [] then
            Inl \<lparr>error = ''ffprobe_empty_output'',
                 detail = ''ffprobe returned no output. File may not contain audio tracks.''\<rparr>
          else (case loads out of
                  JSONDecodeError e \<Rightarrow>
                    Inl \<lparr>error = ''json_decode_error'',
                         detail = ''Error parsing ffprobe output: '' @ e\<rparr>
                | JsonObject streams \<Rightarrow>
                    Inr (case streams of None \<Rightarrow> [] | Some xs \<Rightarrow> xs)
                | JsonOther e \<Rightarrow>
                    Inl \<lparr>error = ''ffprobe_unexpected_error'',
                         detail = ''Unexpected error running ffprobe: '' @ e\<rparr>)
      | TimeoutExpired \<Rightarrow>
          Inl \<lparr>error = ''ffprobe_timeout'',
               detail = ''ffprobe timed out after 30 seconds''\<rparr>
      | OtherException e \<Rightarrow>
          Inl \<lparr>error = ''ffprobe_unexpected_error'',
               detail = ''Unexpected error running ffprobe: '' @ e\<rparr>)"
  by (simp add: get_audio_tracks_def probe_timeout_def str_nat.simps digit_char_def
           split: subprocess_result.splits)

text \<open>
  C7, as amended: for every probe result, the scan returns the list of streams or one
  failure of five kinds: \<open>ffprobe_failed\<close> with the exit code and the diagnostic text when
  the probe exits nonzero, \<open>ffprobe_empty_output\<close> when it prints nothing,
  \<open>json_decode_error\<close> when the output does not parse, \<open>ffprobe_timeout\<close> past the 30
  seconds, and \<open>ffprobe_unexpected_error\<close> with the exception's text when anything else is
  raised. The operator reports the failure's detail as it is and cancels, without a second
  scan, a job or a change to the timeline.
\<close>

theorem scan_result_typed:
  "((\<exists>xs. get_audio_tracks loads result = Inr xs)
      \<or> (\<exists>e. get_audio_tracks loads result = Inl e \<and> error e \<in> set scan_kinds))
   \<and> (\<forall>rc out err. result = Completed rc out err \<and> rc \<noteq> 0 \<longrightarrow>
          get_audio_tracks loads result
            = Inl \<lparr>error = ''ffprobe_failed'',
                   detail = ''ffprobe failed (code '' @ str_int rc @ ''): '' @ py_strip err\<rparr>)
   \<and> (\<forall>out err. result = Completed 0 out err \<and> py_strip out = [] \<longrightarrow>
          (\<exists>e. get_audio_tracks loads result = Inl e \<and> error e = ''ffprobe_empty_output''))
   \<and> (\<forall>out err m. result = Completed 0 out err \<and> py_strip out \<noteq> []
                       \<and> loads out = JSONDecodeError m \<longrightarrow>
          (\<exists>e. get_audio_tracks loads result = Inl e \<and> error e = ''json_decode_error''))
   \<and> (result = TimeoutExpired \<longrightarrow>
          get_audio_tracks loads result
            = Inl \<lparr>error = ''ffprobe_timeout'', detail = ''ffprobe timed out after 30 seconds''\<rparr>)
   \<and> (\<forall>out err m. result = OtherException m
                     \<or> (result = Completed 0 out err \<and> py_strip out \<noteq> []
                          \<and> loads out = JsonOther m) \<longrightarrow>
          get_audio_tracks loads result
            = Inl \<lparr>error = ''ffprobe_unexpected_error'',
                   detail = ''Unexpected error running ffprobe: '' @ m\<rparr>)
   \<and> (\<forall>out err streams. result = Completed 0 out err \<and> py_strip out \<noteq> []
                       \<and> loads out = JsonObject streams \<longrightarrow>
          get_audio_tracks loads result = Inr (case streams of None \<Rightarrow> [] | Some xs \<Rightarrow> xs))
   \<and> (\<forall>w ed sel src e. get_audio_tracks (json_loads w) (ffprobe_streams w src) = Inl e \<longrightarrow>
          run_pipeline w ed sel src
            = \<lparr>status = CANCELLED, editor = Some ed,
               reports = [(INFO, ScanningAudioTracks), (ERROR, FailedToScan (detail e))],
               jobs_run = []\<rparr>)"
proof (intro conjI allI impI)
  show "(\<exists>xs. get_audio_tracks loads result = Inr xs)
      \<or> (\<exists>e. get_audio_tracks loads result = Inl e \<and> error e \<in> set scan_kinds)"
    by (simp add: get_audio_tracks_cases scan_kinds_def
             split: subprocess_result.splits json_loads_result.splits)
qed (auto simp: get_audio_tracks_cases run_pipeline_def)

theorem scan_result_typed_witness:
  "get_audio_tracks loads_nothing (Completed 1 [] ''no such stream '')
     = Inl \<lparr>error = ''ffprobe_failed'', detail = ''ffprobe failed (code 1): no such stream''\<rparr>
   \<and> get_audio_tracks loads_nothing TimeoutExpired
     = Inl \<lparr>error = ''ffprobe_timeout'', detail = ''ffprobe timed out after 30 seconds''\<rparr>"
  using scan_result_typed [of loads_nothing "Completed 1 [] ''no such stream ''"]
        scan_result_typed [of loads_nothing TimeoutExpired]
  by (simp add: str_int_def str_nat.simps digit_char_def py_strip_def py_isspace_def)

text \<open>
  The claim as stated names four kinds of failure. A probe that cannot be started (the tool
  is not installed) gives a failure of a fifth kind.
\<close>

theorem scan_unexpected_error_counterexample:
  "get_audio_tracks loads_nothing (OtherException ''No such file or directory'')
     = Inl \<lparr>error = ''ffprobe_unexpected_error'',
            detail = ''Unexpected error running ffprobe: No such file or directory''\<rparr>
   \<and> ''ffprobe_unexpected_error''
        \<notin> set [''ffprobe_failed'', ''ffprobe_empty_output'', ''json_decode_error'',
                 ''ffprobe_timeout'']"
  by (simp add: get_audio_tracks_def)

subsection \<open>The transcode run\<close>

lemma monitor_result:
  "snd (monitor timeout d p lp ts) =
     (if list_all (\<lambda>t. elapsed t \<le> timeout) ts then
        (case communicate p of
           Inl e \<Rightarrow> Inl e
         | Inr (out, err) \<Rightarrow>
             if returncode p = 0 then Inr (Some out, None) else Inr (None, Some err))
      else (case terminate_raises p of
              Some e \<Rightarrow> Inl e
            | None \<Rightarrow> Inr (None, Some ''Process timed out'')))"
  by (induction ts arbitrary: lp) (simp_all add: case_prod_beta split: option.splits)

lemma run_ffmpeg_started:
  "launch c = Started p \<Longrightarrow>
   fst (run_ffmpeg_with_progress launch c timeout d) =
     (case snd (monitor timeout d p 0 (ticks p)) of Inl e \<Rightarrow> (None, Some e) | Inr r \<Rightarrow> r)"
  by (simp add: run_ffmpeg_with_progress_def split: prod.splits sum.splits)

text \<open>
  C10, as amended: for every command, timeout and duration the function returns a pair.
  The second component is \<open>None\<close> exactly when the process exits with code 0 within the
  timeout and collecting its output raises nothing; then the first component is the
  process's stdout. Otherwise the first component is \<open>None\<close> and the second is the timeout
  message, the text of an exception, or the stderr text that \<open>communicate()\<close> returned.
\<close>

theorem run_ffmpeg_pair:
  "(let r = fst (run_ffmpeg_with_progress launch c timeout d) in
     (snd r = None \<longleftrightarrow> exits_in_time timeout (launch c) \<and> \<not> output_raises (launch c))
     \<and> (snd r = None \<longrightarrow> (\<exists>out. fst r = Some out))
     \<and> (snd r \<noteq> None \<longrightarrow>
          fst r = None
          \<and> (\<exists>e. snd r = Some e
                \<and> (e = ''Process timed out'' \<or> launch c = PopenRaises e
                    \<or> (\<exists>p. launch c = Started p
                          \<and> (terminate_raises p = Some e \<or> communicate p = Inl e
                              \<or> (\<exists>out. communicate p = Inr (out, e))))))))"
proof (cases "launch c")
  case (PopenRaises e)
  then show ?thesis
    by (simp add: run_ffmpeg_with_progress_def exits_in_time_def output_raises_def)
next
  case (Started p)
  show ?thesis
    unfolding Let_def run_ffmpeg_started [of launch c p, OF Started] monitor_result
    using Started
    by (auto simp: exits_in_time_def output_raises_def
             split: sum.splits option.splits prod.splits)
qed

theorem run_ffmpeg_pair_witness:
  "fst (run_ffmpeg_with_progress popen_ok demo_command 60 (Some 40)) = (Some ''out'', None)
   \<and> exits_in_time 60 (popen_ok demo_command)
   \<and> fst (run_ffmpeg_with_progress popen_slow demo_command 60 (Some 40))
       = (None, Some ''Process timed out'')"
  using run_ffmpeg_pair [of popen_ok demo_command 60 "Some 40"]
        run_ffmpeg_pair [of popen_slow demo_command 60 "Some 40"]
  by (simp add: run_ffmpeg_with_progress_def popen_ok_def popen_slow_def exits_in_time_def
        progress_step_def)

text \<open>
  The claim as stated has no condition on collecting the output. A process that exits with
  code 0 at once, whose output \<open>communicate()\<close> cannot decode, gives an error text.
\<close>

theorem run_ffmpeg_decode_error_counterexample:
  "exits_in_time 60 (popen_decode_error demo_command)
   \<and> fst (run_ffmpeg_with_progress popen_decode_error demo_command 60 None)
       = (None, Some ''invalid start byte'')"
  by (simp add: run_ffmpeg_with_progress_def popen_decode_error_def exits_in_time_def)

subsection \<open>Evaluating the model on the concrete inputs\<close>

lemmas demo_defs = clip_strip_def demo_editor_def demo_streams_def demo_float_def demo_process_def
  demo_meta_def demo_world_def demo_analysis_def

lemmas scan_defs = find_selected_def is_candidate_def get_audio_tracks_def py_strip_def
  py_isspace_def

lemmas analyze_defs = analyze_source_def resolve_fps_def parse_fps_def py_strip_def py_isspace_def

lemmas loop_defs = extract_and_assemble_def take_snapshot_def audio_timeout_def
  py_int_def extraction_start_channel_def extract_one_def run_job_def extraction_job_for_def
  run_ffmpeg_with_progress_def truthy_def import_extracted_def verify_reports_def
  small_file_reports_def warn_def sound_strip_def temp_path_def stream_index_def stream_title_def
  frame_final_start_def frame_final_end_def frame_final_duration_def
  temp_extraction_start_def str_int_def str_nat.simps digit_char_def dirname_def path_join_def
  track_warnings_def py_strip_def py_isspace_def

subsection \<open>The selected strip and the extraction loop\<close>

lemma find_selected_from_valid:
  "find_selected_from k xs acc = Inr (Some j) \<Longrightarrow>
     acc = Some j \<or> (k \<le> j \<and> j < k + length xs \<and> is_candidate (xs ! (j - k)))"
proof (induction xs arbitrary: k acc)
  case Nil
  then show ?case by simp
next
  case (Cons x xs)
  show ?case
  proof (cases "is_candidate x")
    case True
    show ?thesis
    proof (cases acc)
      case None
      with True Cons.prems have "find_selected_from (Suc k) xs (Some k) = Inr (Some j)" by simp
      from Cons.IH [OF this] True show ?thesis
        by (auto simp: nth_Cons' Suc_diff_le)
    next
      case (Some a)
      with True Cons.prems show ?thesis by simp
    qed
  next
    case False
    with Cons.prems have "find_selected_from (Suc k) xs acc = Inr (Some j)" by simp
    from Cons.IH [OF this] show ?thesis
      by (auto simp: nth_Cons' Suc_diff_le)
  qed
qed

lemma find_selected_valid:
  "find_selected strips = Inr sel \<Longrightarrow> sel < length strips \<and> is_candidate (strips ! sel)"
  using find_selected_from_valid [of 0 strips None sel]
  by (auto simp: find_selected_def split: sum.splits option.splits)

lemma warn_fields [simp]:
  "l_editor (warn m st) = l_editor st"
  "created_audio_strips (warn m st) = created_audio_strips st"
  "next_channel (warn m st) = next_channel st"
  "l_jobs (warn m st) = l_jobs st"
  "l_reports (warn m st) = l_reports st @ [(WARNING, m)]"
  by (simp_all add: warn_def)

lemma import_extracted_jobs [simp]:
  "l_jobs (import_extracted w path idx ttl st) = l_jobs st"
  by (simp add: import_extracted_def Let_def split: new_sound_result.splits)

lemma extract_one_jobs:
  "fps \<noteq> 0 \<Longrightarrow>
   l_jobs (extract_one w src snap fps timeout s st)
     = l_jobs st @ [extraction_job_for src snap fps timeout s]"
  by (simp add: extract_one_def Let_def)

lemma extract_loop_jobs:
  "fps \<noteq> 0 \<Longrightarrow>
   l_jobs (extract_loop w src snap fps timeout streams st)
     = l_jobs st @ map (extraction_job_for src snap fps timeout) streams"
  by (induction streams arbitrary: st) (simp_all add: extract_one_jobs)

lemma assemble_jobs [simp]: "jobs_run (assemble w snap sel ch rs st) = l_jobs st"
  by (simp add: assemble_def Let_def split: option.splits meta_make_result.splits)

lemma verify_reports_warning: "list_all (\<lambda>r. fst r = WARNING) (verify_reports w p)"
  by (simp add: verify_reports_def split: subprocess_result.splits option.splits)

lemma small_file_reports_warning: "list_all (\<lambda>r. fst r = WARNING) (small_file_reports w p i)"
  by (simp add: small_file_reports_def)

lemma track_warnings_warning: "list_all (\<lambda>r. fst r = WARNING) (track_warnings w s)"
  by (simp add: track_warnings_def split: option.splits)

lemma import_extracted_warning:
  "list_all (\<lambda>r. fst r = WARNING) (l_reports st) \<Longrightarrow>
   list_all (\<lambda>r. fst r = WARNING) (l_reports (import_extracted w p i t st))"
  by (simp add: import_extracted_def Let_def verify_reports_warning small_file_reports_warning
           split: new_sound_result.splits)

lemma extract_one_warning:
  "list_all (\<lambda>r. fst r = WARNING) (l_reports st) \<Longrightarrow>
   list_all (\<lambda>r. fst r = WARNING) (l_reports (extract_one w src snap fps timeout s st))"
  by (simp add: extract_one_def Let_def import_extracted_warning)

lemma extract_loop_warning:
  "list_all (\<lambda>r. fst r = WARNING) (l_reports st) \<Longrightarrow>
   list_all (\<lambda>r. fst r = WARNING) (l_reports (extract_loop w src snap fps timeout streams st))"
  by (induction streams arbitrary: st) (simp_all add: extract_one_warning)

lemma analyze_source_warning:
  "analyze_source w src = (rs, Some a) \<Longrightarrow> list_all (\<lambda>r. fst r = WARNING) rs"
  by (auto simp: analyze_source_def resolve_fps_def
           split: subprocess_result.splits option.splits if_splits prod.splits sum.splits)

lemma warning_not_error:
  "list_all (\<lambda>r. fst r = WARNING) rs \<Longrightarrow> list_all (\<lambda>r. fst r \<noteq> ERROR) rs"
  by (induction rs) auto

lemma extract_one_fails:
  "job_fails w src snap fps timeout s \<Longrightarrow>
   l_editor (extract_one w src snap fps timeout s st) = l_editor st
   \<and> created_audio_strips (extract_one w src snap fps timeout s st) = created_audio_strips st"
  by (auto simp: job_fails_def extract_one_def import_extracted_def Let_def)

lemma extract_loop_all_fail:
  "\<forall>s \<in> set streams. job_fails w src snap fps timeout s \<Longrightarrow>
   l_editor (extract_loop w src snap fps timeout streams st) = l_editor st
   \<and> created_audio_strips (extract_loop w src snap fps timeout streams st)
       = created_audio_strips st"
  by (induction streams arbitrary: st) (simp_all add: extract_one_fails)

subsection \<open>Extraction windows\<close>

text \<open>
  C1: whenever the run reaches the extraction loop with a source rate \<open>R > 0\<close>, it hands
  one job per additional stream to the transcode tool, and every job starts at
  \<open>frame_offset_start / R\<close> seconds and lasts \<open>frame_final_duration / R\<close> seconds, both read
  from the selected strip as it was before the run; the container's duration
  (\<open>video_duration_seconds\<close>) plays no part. In the spec's scenario (offset 48, 960 frames,
  24 frames a second) every job starts at 2 seconds and lasts 40 seconds.
\<close>

theorem extraction_windows:
  assumes sel: "find_selected (strips_all ed) = Inr sel"
    and src_ok: "isfile w (filepath (strips_all ed ! sel))"
    and scan: "get_audio_tracks (json_loads w) (ffprobe_streams w (filepath (strips_all ed ! sel)))
                 = Inr found"
    and many: "1 < length found"
    and an: "analyze_source w (filepath (strips_all ed ! sel)) = (rs, Some a)"
    and rate: "0 < actual_video_fps a"
  shows "length (jobs_run (execute w (Some ed))) = length found - 1
     \<and> (\<forall>j \<in> set (jobs_run (execute w (Some ed))).
           start_seconds j
             = real_of_int (frame_offset_start (strips_all ed ! sel)) / actual_video_fps a
           \<and> duration_seconds j
             = real_of_int (frame_final_duration (strips_all ed ! sel)) / actual_video_fps a)"
proof -
  let ?src = "filepath (strips_all ed ! sel)"
  let ?snap = "take_snapshot (strips_all ed ! sel)"
  from many have ne: "found \<noteq> []" by auto
  have run: "jobs_run (execute w (Some ed))
      = map (extraction_job_for ?src ?snap (actual_video_fps a) (audio_timeout (file_size_mb a)))
          (tl found)"
    using sel src_ok scan many an rate ne
    by (simp add: execute_def run_pipeline_def extract_and_assemble_def Let_def extract_loop_jobs)
  show ?thesis
    unfolding run
    by (auto simp: extraction_job_for_def start_seconds_def take_snapshot_def Let_def)
qed

theorem extraction_windows_witness:
  "length (jobs_run (execute demo_world (Some demo_editor))) = 2
   \<and> list_all (\<lambda>j. start_seconds j = 2 \<and> duration_seconds j = 40)
        (jobs_run (execute demo_world (Some demo_editor)))"
proof -
  have h1: "find_selected (strips_all demo_editor) = Inr 0"
    by (simp add: demo_defs scan_defs)
  have h2: "isfile demo_world (filepath (strips_all demo_editor ! 0))"
    by (simp add: demo_defs)
  have h3: "get_audio_tracks (json_loads demo_world)
              (ffprobe_streams demo_world (filepath (strips_all demo_editor ! 0)))
              = Inr demo_streams"
    by (simp add: demo_defs scan_defs)
  have h4: "1 < length demo_streams" by (simp add: demo_streams_def)
  have h5: "analyze_source demo_world (filepath (strips_all demo_editor ! 0))
              = ([], Some demo_analysis)"
    by (simp add: demo_defs analyze_defs)
  have h6: "0 < actual_video_fps demo_analysis" by (simp add: demo_analysis_def)
  from extraction_windows [OF h1 h2 h3 h4 h5 h6] show ?thesis
    by (simp add: list_all_iff demo_defs frame_final_duration_def frame_final_end_def
          frame_final_start_def)
qed

text \<open>Every job carries the timeout computed from the size of the source file.\<close>

lemma job_timeouts:
  assumes sel: "find_selected (strips_all ed) = Inr sel"
    and src_ok: "isfile w (filepath (strips_all ed ! sel))"
    and scan: "get_audio_tracks (json_loads w) (ffprobe_streams w (filepath (strips_all ed ! sel)))
                 = Inr found"
    and many: "1 < length found"
    and an: "analyze_source w (filepath (strips_all ed ! sel)) = (rs, Some a)"
    and rate: "actual_video_fps a \<noteq> 0"
  shows "\<forall>j \<in> set (jobs_run (execute w (Some ed))).
           timeout_seconds j = audio_timeout (file_size_mb a)"
proof -
  from many have ne: "found \<noteq> []" by auto
  have "jobs_run (execute w (Some ed))
      = map (extraction_job_for (filepath (strips_all ed ! sel))
               (take_snapshot (strips_all ed ! sel)) (actual_video_fps a)
               (audio_timeout (file_size_mb a)))
          (tl found)"
    using sel src_ok scan many an rate ne
    by (simp add: execute_def run_pipeline_def extract_and_assemble_def Let_def extract_loop_jobs)
  then show ?thesis by (auto simp: extraction_job_for_def Let_def)
qed

subsection \<open>Fewer than two streams\<close>

text \<open>
  C5: when the scan reports no stream or one stream, the run ends with \<open>FINISHED\<close>, the
  sequencer is what it was, no job was handed to the transcode tool, and every report is
  informational.
\<close>

theorem few_streams_no_mutation:
  assumes sel: "find_selected (strips_all ed) = Inr sel"
    and src_ok: "isfile w (filepath (strips_all ed ! sel))"
    and scan: "get_audio_tracks (json_loads w) (ffprobe_streams w (filepath (strips_all ed ! sel)))
                 = Inr found"
    and few: "length found \<le> 1"
  shows "status (execute w (Some ed)) = FINISHED
     \<and> editor (execute w (Some ed)) = Some ed
     \<and> jobs_run (execute w (Some ed)) = []
     \<and> list_all (\<lambda>r. fst r = INFO) (reports (execute w (Some ed)))"
  using assms by (simp add: execute_def run_pipeline_def Let_def)

theorem few_streams_no_mutation_witness:
  "status (execute solo_world (Some demo_editor)) = FINISHED
   \<and> editor (execute solo_world (Some demo_editor)) = Some demo_editor
   \<and> jobs_run (execute solo_world (Some demo_editor)) = []
   \<and> reports (execute solo_world (Some demo_editor))
       = [(INFO, ScanningAudioTracks), (INFO, OnlyOneTrack 1)]"
proof -
  let ?one = "[\<lparr>index = 0, codec_name = Some ''aac'', channels = Some 2,
          sample_rate = Some ''48000'', duration = None, title = Some ''A''\<rparr>]"
  have h1: "find_selected (strips_all demo_editor) = Inr 0"
    by (simp add: demo_defs scan_defs)
  have h2: "isfile solo_world (filepath (strips_all demo_editor ! 0))"
    by (simp add: demo_defs solo_world_def)
  have h3: "get_audio_tracks (json_loads solo_world)
              (ffprobe_streams solo_world (filepath (strips_all demo_editor ! 0))) = Inr ?one"
    by (simp add: demo_defs solo_world_def scan_defs)
  have h4: "length ?one \<le> 1" by simp
  from few_streams_no_mutation [OF h1 h2 h3 h4] h1 h2 h3 show ?thesis
    by (simp add: execute_def run_pipeline_def Let_def)
qed

subsection \<open>Every job fails\<close>

text \<open>
  C4, as amended: when every additional job fails (the window cannot be computed, the
  transcode run returns a non-empty error text, or the output file is missing), the run
  reports the warning that no additional track was extracted, reports no error, returns
  \<open>FINISHED\<close>, and leaves the sequencer, the selected strip included, as it was.
\<close>

theorem all_jobs_fail_finished:
  assumes sel: "find_selected (strips_all ed) = Inr sel"
    and src_ok: "isfile w (filepath (strips_all ed ! sel))"
    and scan: "get_audio_tracks (json_loads w) (ffprobe_streams w (filepath (strips_all ed ! sel)))
                 = Inr found"
    and many: "1 < length found"
    and an: "analyze_source w (filepath (strips_all ed ! sel)) = (rs, Some a)"
    and fails: "\<forall>s \<in> set (tl found).
                  job_fails w (filepath (strips_all ed ! sel)) (take_snapshot (strips_all ed ! sel))
                    (actual_video_fps a) (audio_timeout (file_size_mb a)) s"
  shows "status (execute w (Some ed)) = FINISHED
     \<and> editor (execute w (Some ed)) = Some ed
     \<and> last (reports (execute w (Some ed))) = (WARNING, NoAdditionalExtracted)
     \<and> (\<forall>r \<in> set (reports (execute w (Some ed))). fst r \<noteq> ERROR)"
proof -
  let ?src = "filepath (strips_all ed ! sel)"
  let ?snap = "take_snapshot (strips_all ed ! sel)"
  let ?init = "\<lparr>l_editor = ed, created_audio_strips = [],
               next_channel = extraction_start_channel (strips_all ed),
               l_reports = [], l_jobs = []\<rparr>"
  let ?st = "extract_loop w ?src ?snap (actual_video_fps a) (audio_timeout (file_size_mb a))
               (tl found) ?init"
  let ?pre = "[(INFO, ScanningAudioTracks), (INFO, FoundTracks (length found))]
                @ concat (map (track_warnings w) found) @ rs"
  from many have ne: "found \<noteq> []" by auto
  have unchanged: "l_editor ?st = ed" "created_audio_strips ?st = []"
    using extract_loop_all_fail [OF fails, where st = ?init] by simp_all
  have out: "execute w (Some ed)
      = \<lparr>status = FINISHED, editor = Some ed,
         reports = ?pre @ l_reports ?st @ [(WARNING, NoAdditionalExtracted)],
         jobs_run = l_jobs ?st\<rparr>"
    using sel src_ok scan many an ne unchanged
    by (simp add: execute_def run_pipeline_def extract_and_assemble_def Let_def assemble_def)
  have w1: "list_all (\<lambda>r. fst r = WARNING) (l_reports ?st)"
    by (rule extract_loop_warning) simp
  have w2: "list_all (\<lambda>r. fst r = WARNING) rs"
    using an by (rule analyze_source_warning)
  have w3: "list_all (\<lambda>r. fst r = WARNING) (concat (map (track_warnings w) found))"
    by (induction found) (simp_all add: track_warnings_warning)
  have "list_all (\<lambda>r. fst r \<noteq> ERROR)
          (?pre @ l_reports ?st @ [(WARNING, NoAdditionalExtracted)])"
    using w1 w2 w3 by (simp add: warning_not_error)
  then show ?thesis unfolding out by (simp add: list_all_iff)
qed

theorem all_jobs_fail_finished_witness:
  "status (execute failing_world (Some demo_editor)) = FINISHED
   \<and> editor (execute failing_world (Some demo_editor)) = Some demo_editor
   \<and> last (reports (execute failing_world (Some demo_editor))) = (WARNING, NoAdditionalExtracted)
   \<and> list_all (\<lambda>r. fst r \<noteq> ERROR) (reports (execute failing_world (Some demo_editor)))"
proof -
  have h1: "find_selected (strips_all demo_editor) = Inr 0"
    by (simp add: demo_defs scan_defs)
  have h2: "isfile failing_world (filepath (strips_all demo_editor ! 0))"
    by (simp add: demo_defs failing_world_def)
  have h3: "get_audio_tracks (json_loads failing_world)
              (ffprobe_streams failing_world (filepath (strips_all demo_editor ! 0)))
              = Inr demo_streams"
    by (simp add: demo_defs failing_world_def scan_defs)
  have h4: "1 < length demo_streams" by (simp add: demo_streams_def)
  have h5: "analyze_source failing_world (filepath (strips_all demo_editor ! 0))
              = ([], Some demo_analysis)"
    by (simp add: demo_defs failing_world_def analyze_defs)
  have h6: "\<forall>s \<in> set (tl demo_streams).
              job_fails failing_world (filepath (strips_all demo_editor ! 0))
                (take_snapshot (strips_all demo_editor ! 0))
                (actual_video_fps demo_analysis) (audio_timeout (file_size_mb demo_analysis)) s"
    by (simp add: job_fails_def run_job_def run_ffmpeg_with_progress_def failing_world_def
          failed_process_def truthy_def demo_defs)
  from all_jobs_fail_finished [OF h1 h2 h3 h4 h5 h6] show ?thesis
    by (simp add: list_all_iff)
qed

text \<open>
  The claim as stated has the run report failure and end in the failed state. With a tool
  that fails on both additional streams, the run reports warnings only and returns
  \<open>FINISHED\<close>.
\<close>

theorem all_jobs_fail_counterexample:
  "map (\<lambda>j. run_job failing_world j) (jobs_run (execute failing_world (Some demo_editor)))
     = [(None, Some ''matches no streams''), (None, Some ''matches no streams'')]
   \<and> status (execute failing_world (Some demo_editor)) = FINISHED
   \<and> reports (execute failing_world (Some demo_editor))
       = [(INFO, ScanningAudioTracks), (INFO, FoundTracks 3),
          (WARNING, FailedToExtract ''1'' ''matches no streams''),
          (WARNING, FailedToExtract ''2'' ''matches no streams''),
          (WARNING, NoAdditionalExtracted)]"
  by (simp add: execute_def run_pipeline_def assemble_def Let_def demo_defs failing_world_def
        failed_process_def scan_defs analyze_defs loop_defs)

subsection \<open>Restoring the placement\<close>

lemmas assemble_defs = assemble_def move_original_def deselect_all_def select_strips_def
  group_selected_def active_meta_def restore_meta_def restore_reports_def clip.extend_def
  clip.truncate_def strip.fields_def overlaps_def

lemmas run_defs = execute_def run_pipeline_def Let_def demo_defs scan_defs analyze_defs loop_defs
  assemble_defs

lemma warning_not_restoring:
  "list_all (\<lambda>r. fst r = WARNING) rs \<Longrightarrow> (INFO, m) \<notin> set rs"
  by (auto simp: list_all_iff)

lemma analyze_source_no_info:
  "analyze_source w src = (rs, r) \<Longrightarrow> (INFO, m) \<notin> set rs"
  by (auto simp: analyze_source_def resolve_fps_def
           split: subprocess_result.splits option.splits if_splits prod.splits sum.splits)

lemma track_warnings_no_info: "(INFO, m) \<notin> set (concat (map (track_warnings w) found))"
proof -
  have "list_all (\<lambda>r. fst r = WARNING) (concat (map (track_warnings w) found))"
    by (induction found) (simp_all add: track_warnings_warning)
  then show ?thesis by (rule warning_not_restoring)
qed

lemma restore_meta_fields:
  "frame_start (restore_meta snap m) = original_frame_start snap"
  "channel (restore_meta snap m) = original_strip_channel snap"
  "frame_offset_start (restore_meta snap m) = original_frame_offset_start snap"
  "frame_duration (restore_meta snap m) = frame_duration m"
  "stype (restore_meta snap m) = stype m"
  "children (restore_meta snap m) = children m"
  by (simp_all add: restore_meta_def Let_def)

lemma restore_meta_offset_end:
  "frame_offset_end (restore_meta snap m) =
     (let current = frame_duration m - original_frame_offset_start snap
                      - original_frame_offset_end snap;
          target = original_frame_final_duration snap
      in if \<bar>current - target\<bar> > 1 then original_frame_offset_end snap + (current - target)
         else original_frame_offset_end snap)"
  by (auto simp: restore_meta_def Let_def frame_final_duration_def frame_final_end_def
        frame_final_start_def)

lemma restore_meta_duration:
  "\<bar>frame_final_duration (restore_meta snap m) - original_frame_final_duration snap\<bar> \<le> 1"
  by (simp add: restore_meta_def Let_def frame_final_duration_def frame_final_end_def
        frame_final_start_def)

lemma restore_reports_restoring: "(INFO, Restoring) \<in> set (restore_reports snap m)"
  by (simp add: restore_reports_def Let_def)

lemma assemble_restoring:
  assumes "(INFO, Restoring) \<in> set (reports (assemble w snap sel ch rs st))"
    and "(INFO, Restoring) \<notin> set rs"
    and "(INFO, Restoring) \<notin> set (l_reports st)"
  shows "\<exists>g i. i < length (strips_all g) \<and> stype (strips_all g ! i) = META
           \<and> active_strip g = Some i
           \<and> status (assemble w snap sel ch rs st) = FINISHED
           \<and> editor (assemble w snap sel ch rs st)
               = Some (g\<lparr>strips_all := (strips_all g)[i := restore_meta snap (strips_all g ! i)]\<rparr>)"
proof (cases "created_audio_strips st = []")
  case True
  with assms show ?thesis by (simp add: assemble_def)
next
  case False
  note created = this
  show ?thesis
  proof (cases "select_all_raises w")
    case (Some e)
    with assms created show ?thesis by (simp add: assemble_def Let_def)
  next
    case None
    let ?chosen = "select_strips (sel # created_audio_strips st)
                     (deselect_all (move_original sel ch (l_editor st)))"
    show ?thesis
    proof (cases "meta_make w")
      case (MetaRaises e)
      with assms created None show ?thesis by (simp add: assemble_def Let_def)
    next
      case MetaNoop
      show ?thesis
      proof (cases "active_meta ?chosen")
        case NoneA: None
        with assms created None MetaNoop show ?thesis by (simp add: assemble_def Let_def)
      next
        case (Some i)
        then have "i < length (strips_all ?chosen) \<and> stype (strips_all ?chosen ! i) = META
                   \<and> active_strip ?chosen = Some i"
          by (auto simp: active_meta_def split: option.splits if_splits)
        with created None MetaNoop Some show ?thesis
          by (intro exI [of _ ?chosen] exI [of _ i]) (simp add: assemble_def Let_def)
      qed
    next
      case (MetaMade m)
      let ?g = "group_selected m ?chosen"
      show ?thesis
      proof (cases "active_meta ?g")
        case NoneB: None
        with assms created None MetaMade show ?thesis by (simp add: assemble_def Let_def)
      next
        case (Some i)
        then have "i < length (strips_all ?g) \<and> stype (strips_all ?g ! i) = META
                   \<and> active_strip ?g = Some i"
          by (auto simp: active_meta_def split: option.splits if_splits)
        with created None MetaMade Some show ?thesis
          by (intro exI [of _ ?g] exI [of _ i]) (simp add: assemble_def Let_def)
      qed
    qed
  qed
qed

lemma take_snapshot_fields:
  "original_frame_start (take_snapshot s) = frame_start s"
  "original_strip_channel (take_snapshot s) = channel s"
  "original_frame_offset_start (take_snapshot s) = frame_offset_start s"
  "original_frame_offset_end (take_snapshot s) = frame_offset_end s"
  "original_frame_final_duration (take_snapshot s) = frame_final_duration s"
  by (simp_all add: take_snapshot_def)

text \<open>
  C2: a run that reaches the restoring phase (it reports \<open>Restoring\<close>, which only a run
  with at least one created strip and a grouped meta strip does) returns \<open>FINISHED\<close>, and
  the active meta strip has the frame start, the channel and the start offset the selected
  strip had before the run. Its end offset is the one of the selected strip, changed by the
  signed difference (current minus target) when the grouped strip's duration under the
  restored offsets differs from the selected strip's final duration by more than a frame;
  its final duration is then within one frame of the selected strip's.
\<close>

theorem restore_matches_snapshot:
  assumes reached: "(INFO, Restoring) \<in> set (reports (execute w (Some ed)))"
  shows "\<exists>sel ed' i.
           find_selected (strips_all ed) = Inr sel \<and> sel < length (strips_all ed)
         \<and> status (execute w (Some ed)) = FINISHED
         \<and> editor (execute w (Some ed)) = Some ed'
         \<and> active_strip ed' = Some i \<and> i < length (strips_all ed')
         \<and> (let orig = strips_all ed ! sel;
                 c = strips_all ed' ! i;
                 current = frame_duration c - frame_offset_start orig - frame_offset_end orig;
                 target = frame_final_duration orig
             in stype c = META
              \<and> frame_start c = frame_start orig
              \<and> channel c = channel orig
              \<and> frame_offset_start c = frame_offset_start orig
              \<and> frame_offset_end c
                  = (if \<bar>current - target\<bar> > 1 then frame_offset_end orig + (current - target)
                     else frame_offset_end orig)
              \<and> \<bar>frame_final_duration c - target\<bar> \<le> 1)"
proof -
  obtain sel where sel: "find_selected (strips_all ed) = Inr sel"
  proof (cases "find_selected (strips_all ed)")
    case (Inl m)
    with reached show ?thesis by (simp add: execute_def)
  next
    case (Inr i)
    then show ?thesis by (rule that)
  qed
  let ?orig = "strips_all ed ! sel"
  let ?src = "filepath ?orig"
  let ?snap = "take_snapshot ?orig"
  have src_ok: "isfile w ?src"
  proof (rule ccontr)
    assume "\<not> isfile w ?src"
    with reached sel show False by (simp add: execute_def Let_def)
  qed
  have exec: "execute w (Some ed) = run_pipeline w ed sel ?src"
    using sel src_ok by (simp add: execute_def Let_def)
  obtain found where scan: "get_audio_tracks (json_loads w) (ffprobe_streams w ?src) = Inr found"
    and many: "1 < length found"
  proof (cases "get_audio_tracks (json_loads w) (ffprobe_streams w ?src)")
    case (Inl e)
    with reached exec show ?thesis by (simp add: run_pipeline_def)
  next
    case (Inr found)
    show ?thesis
    proof (cases "1 < length found")
      case True
      with Inr show ?thesis by (rule that)
    next
      case False
      then have few: "length found \<le> 1" by simp
      show ?thesis
      proof (cases "found = []")
        case True
        with reached exec Inr show ?thesis by (simp add: run_pipeline_def)
      next
        case False
        with reached exec Inr few show ?thesis by (simp add: run_pipeline_def)
      qed
    qed
  qed
  let ?pre = "[(INFO, ScanningAudioTracks), (INFO, FoundTracks (length found))]
                @ concat (map (track_warnings w) found)"
  have pre_clean: "(INFO, Restoring) \<notin> set ?pre"
    using track_warnings_no_info [of Restoring w found] by simp
  from many have ne: "found \<noteq> []" by auto
  obtain rs2 a where an: "analyze_source w ?src = (rs2, Some a)"
  proof (cases "analyze_source w ?src")
    case (Pair rs2 r)
    note clean = analyze_source_no_info [OF Pair, of Restoring]
    show ?thesis
    proof (cases r)
      case None
      with reached exec scan many ne Pair pre_clean clean show ?thesis
        by (simp add: run_pipeline_def Let_def)
    next
      case (Some a)
      with Pair show ?thesis by (simp add: that)
    qed
  qed
  have rs2_clean: "(INFO, Restoring) \<notin> set rs2"
    by (rule analyze_source_no_info [OF an])
  let ?ch = "extraction_start_channel (strips_all ed)"
  let ?init = "\<lparr>l_editor = ed, created_audio_strips = [], next_channel = ?ch,
                l_reports = [], l_jobs = []\<rparr>"
  let ?st = "extract_loop w ?src ?snap (actual_video_fps a) (audio_timeout (file_size_mb a))
               (tl found) ?init"
  have run: "execute w (Some ed) = assemble w ?snap sel ?ch (?pre @ rs2) ?st"
    using exec scan many ne an
    by (simp add: run_pipeline_def extract_and_assemble_def Let_def)
  have loop_clean: "(INFO, Restoring) \<notin> set (l_reports ?st)"
    by (rule warning_not_restoring, rule extract_loop_warning) simp
  have all_clean: "(INFO, Restoring) \<notin> set (?pre @ rs2)"
    using pre_clean rs2_clean by simp
  from reached have "(INFO, Restoring) \<in> set (reports (assemble w ?snap sel ?ch (?pre @ rs2) ?st))"
    unfolding run .
  from assemble_restoring [OF this all_clean loop_clean]
  obtain g i where i: "i < length (strips_all g)" and meta: "stype (strips_all g ! i) = META"
    and act: "active_strip g = Some i"
    and fin: "status (assemble w ?snap sel ?ch (?pre @ rs2) ?st) = FINISHED"
    and edit: "editor (assemble w ?snap sel ?ch (?pre @ rs2) ?st)
                 = Some (g\<lparr>strips_all := (strips_all g)[i := restore_meta ?snap (strips_all g ! i)]\<rparr>)"
    by blast
  let ?ed' = "g\<lparr>strips_all := (strips_all g)[i := restore_meta ?snap (strips_all g ! i)]\<rparr>"
  have c: "strips_all ?ed' ! i = restore_meta ?snap (strips_all g ! i)"
    using i by simp
  have props: "let orig = ?orig; c = strips_all ?ed' ! i;
                 current = frame_duration c - frame_offset_start orig - frame_offset_end orig;
                 target = frame_final_duration orig
             in stype c = META
              \<and> frame_start c = frame_start orig
              \<and> channel c = channel orig
              \<and> frame_offset_start c = frame_offset_start orig
              \<and> frame_offset_end c
                  = (if \<bar>current - target\<bar> > 1 then frame_offset_end orig + (current - target)
                     else frame_offset_end orig)
              \<and> \<bar>frame_final_duration c - target\<bar> \<le> 1"
    unfolding c Let_def
    using restore_meta_duration [of ?snap "strips_all g ! i"]
          restore_meta_offset_end [of ?snap "strips_all g ! i"] meta
    by (simp add: restore_meta_fields take_snapshot_fields Let_def)
  have "sel < length (strips_all ed)" using find_selected_valid [OF sel] by simp
  with sel fin edit act i props show ?thesis
    unfolding run
    by (intro exI [of _ sel] exI [of _ ?ed'] exI [of _ i]) simp
qed

theorem restore_matches_snapshot_witness:
  "(INFO, Restoring) \<in> set (reports (execute demo_world (Some demo_editor)))
   \<and> map (\<lambda>c. (stype c, frame_start c, channel c, frame_offset_start c, frame_offset_end c,
                 frame_final_duration c))
        (strips_all (the (editor (execute demo_world (Some demo_editor)))))
       = [(META, 0, 1, 48, 432, 960)]"
proof -
  have reached: "(INFO, Restoring) \<in> set (reports (execute demo_world (Some demo_editor)))"
    by (simp add: run_defs)
  from restore_matches_snapshot [OF reached] reached show ?thesis
    by (simp add: run_defs)
qed

subsection \<open>The temporary area\<close>

lemma import_extracted_strips:
  "\<exists>new. strips_all (l_editor (import_extracted w p i t st)) = strips_all (l_editor st) @ new
         \<and> (\<forall>s \<in> set new. channel s = next_channel st \<and> frame_start s = temp_extraction_start)
         \<and> next_channel st \<le> next_channel (import_extracted w p i t st)"
  by (auto simp: import_extracted_def Let_def warn_def sound_strip_def
           split: new_sound_result.splits)

lemma extract_one_strips:
  "\<exists>new. strips_all (l_editor (extract_one w src snap fps timeout s st))
           = strips_all (l_editor st) @ new
         \<and> (\<forall>x \<in> set new. channel x = next_channel st \<and> frame_start x = temp_extraction_start)
         \<and> next_channel st \<le> next_channel (extract_one w src snap fps timeout s st)"
  using import_extracted_strips [of w _ _ _ "st\<lparr>l_jobs := l_jobs st @ [extraction_job_for src snap fps timeout s]\<rparr>"]
  by (auto simp: extract_one_def Let_def warn_def)

lemma extract_loop_strips:
  "\<exists>new. strips_all (l_editor (extract_loop w src snap fps timeout streams st))
           = strips_all (l_editor st) @ new
         \<and> (\<forall>x \<in> set new. next_channel st \<le> channel x \<and> frame_start x = temp_extraction_start)"
proof (induction streams arbitrary: st)
  case Nil
  then show ?case by simp
next
  case (Cons s streams)
  let ?st = "extract_one w src snap fps timeout s st"
  from extract_one_strips [of w src snap fps timeout s st]
  obtain new1 where one: "strips_all (l_editor ?st) = strips_all (l_editor st) @ new1"
    and ch1: "\<forall>x \<in> set new1. channel x = next_channel st \<and> frame_start x = temp_extraction_start"
    and mono: "next_channel st \<le> next_channel ?st"
    by blast
  from Cons.IH [of ?st]
  obtain new2 where rest: "strips_all (l_editor (extract_loop w src snap fps timeout streams ?st))
                             = strips_all (l_editor ?st) @ new2"
    and ch2: "\<forall>x \<in> set new2. next_channel ?st \<le> channel x \<and> frame_start x = temp_extraction_start"
    by blast
  show ?case
    using one ch1 mono rest ch2
    by (intro exI [of _ "new1 @ new2"]) auto
qed

text \<open>
  The sound strips the loop creates lie on channels that no strip of the timeline occupied
  when the workspace was computed, so they overlap none of them.
\<close>

lemma new_strips_free:
  assumes "strips_all (l_editor (extract_loop w src snap fps timeout streams
             \<lparr>l_editor = ed, created_audio_strips = [],
              next_channel = extraction_start_channel (strips_all ed),
              l_reports = [], l_jobs = []\<rparr>)) = strips_all ed @ new"
    and "x \<in> set new" and "s \<in> set (strips_all ed)"
  shows "\<not> overlaps x s"
proof -
  let ?init = "\<lparr>l_editor = ed, created_audio_strips = [],
              next_channel = extraction_start_channel (strips_all ed),
              l_reports = [], l_jobs = []\<rparr>"
  from extract_loop_strips [of w src snap fps timeout streams ?init] assms(1)
  have "\<forall>x \<in> set new. extraction_start_channel (strips_all ed) \<le> channel x"
    by auto
  with assms(2) have "extraction_start_channel (strips_all ed) \<le> channel x" by blast
  moreover have "channel s < extraction_start_channel (strips_all ed)"
    using assms(3) by (rule channel_below_start)
  ultimately show ?thesis by (simp add: overlaps_def)
qed

text \<open>
  C3, evaluated where the code departs from it: with a sound on channel 2 over frames 900
  to 1200, the first workspace channel is 3, and the selected strip is moved to channel
  \<open>3 - 1 = 2\<close> at frame 1000, where its final range 1048 to 2008 meets the sound's. When the
  host's grouping operator raises, the run is cancelled with the two strips left on top of
  each other; the new sounds sit on channels 3 and 4, above every strip.
\<close>

theorem workspace_overlap_example:
  "extraction_start_channel (strips_all busy_editor) = 3
   \<and> overlaps (strips_all (move_original 0 (extraction_start_channel (strips_all busy_editor))
                              busy_editor) ! 0) bystander_strip
   \<and> status (execute stuck_world (Some busy_editor)) = CANCELLED
   \<and> map (\<lambda>s. (name s, channel s, frame_final_start s, frame_final_end s))
        (strips_all (the (editor (execute stuck_world (Some busy_editor)))))
       = [(''clip'', 2, 1048, 2008), (''music'', 2, 900, 1200),
          (''Audio_Comm'', 3, 1000, 2440), (''Audio_Music'', 4, 1000, 2440)]"
  by (simp add: run_defs busy_editor_def bystander_strip_def stuck_world_def)

subsection \<open>A failed job that is not noticed\<close>

text \<open>
  C6, evaluated where the code departs from it: the job of the third stream fails with
  exit code 1 and empty remaining stderr, so \<open>run_ffmpeg_with_progress\<close> returns \<open>None\<close>
  with an empty error text; the operator tests the text for truth, takes the job for a
  success, reports no warning, and groups a strip made from the output file it finds with
  the others.
\<close>

theorem silent_failure_example:
  "map (run_job quiet_world) (jobs_run (execute quiet_world (Some demo_editor)))
     = [(Some [], None), (None, Some [])]
   \<and> status (execute quiet_world (Some demo_editor)) = FINISHED
   \<and> list_all (\<lambda>r. fst r = INFO) (reports (execute quiet_world (Some demo_editor)))
   \<and> map (\<lambda>s. map name (children s))
        (strips_all (the (editor (execute quiet_world (Some demo_editor)))))
       = [[''clip'', ''Audio_Comm'', ''Audio_Music'']]"
  by (simp add: run_defs quiet_world_def silent_failure_def progress_step_def)

end
